theory Spec2Isabelle
  imports Complex_Main "HOL-Library.Log_Nat" "HOL-Library.AList"
begin

section \<open>Values of the program\<close>

text \<open>
  The service in \<^verbatim>\<open>app.py\<close> computes with Python floats (IEEE 754 binary64).
  A float is modelled by its exact value: a finite float is the rational number it
  denotes, and the two infinities and NaN are values of their own. The two zeros
  \<^verbatim>\<open>0.0\<close> and \<^verbatim>\<open>-0.0\<close> compare equal in Python and are one value here. Every
  arithmetic operation rounds its exact result to the nearest float, ties to even
  (\<open>fl\<close> below). Every finite float is such a rational; a statement about all
  \<open>Fin r\<close> covers them.
\<close>

datatype pyfloat = Fin rat | PInf | NInf | NaN

text \<open>
  What \<^verbatim>\<open>json.loads\<close> returns: \<^verbatim>\<open>None\<close>, a bool, an int, a float, a str, a list or
  a dict. A dict keeps its keys in insertion order, so it is an association list.
\<close>

datatype json =
    JNull
  | JBool bool
  | JInt int
  | JNum pyfloat
  | JStr string
  | JArr "json list"
  | JObj "(string \<times> json) list"

text \<open>
  Everything the request handler can raise. \<open>HTTPException\<close> carries the status code
  and the detail of \<^verbatim>\<open>fastapi.HTTPException\<close>. \<open>RequestValidationError\<close> is what the
  framework raises when the body violates the request schema, before the handler runs.
  \<open>ExternalError\<close> is an exception raised inside the loaded regression model, with its
  text.
\<close>

datatype error =
    HTTPException nat json
  | RequestValidationError
  | IndexError
  | ZeroDivisionError
  | OverflowError
  | AttributeError
  | ExternalError string

record request =
  customer_id :: string
  features :: "pyfloat list"

record message =
  role :: string
  content :: string

record chat_request =
  model :: string
  messages :: "message list"
  temperature :: pyfloat
  max_tokens :: nat
  response_format :: "(string \<times> string) list"

text \<open>
  The calls that leave the process, in the order they are made. The handler returns the
  calls it made together with its result, so that "the model is never invoked" is a
  statement about this list.
\<close>

datatype event = ModelPredict "pyfloat list" | LLMCall chat_request

text \<open>
  The collaborators the source does not define: the regression model loaded from
  \<^verbatim>\<open>model.pkl\<close> (\<^verbatim>\<open>model.predict\<close> on one row, returning its first entry; \<open>Inl\<close> is
  the text of an exception it raised), the chat completion client (\<open>Inl\<close> is the text of
  the exception it raised, \<open>Inr\<close> the content of the first choice, a string), and
  \<^verbatim>\<open>json.loads\<close> (\<open>None\<close> is \<^verbatim>\<open>JSONDecodeError\<close>) and \<^verbatim>\<open>json.dumps\<close> of the standard
  library.
\<close>

record env =
  predict :: "pyfloat list \<Rightarrow> string + pyfloat"
  chat_create :: "chat_request \<Rightarrow> string + string"
  json_loads :: "string \<Rightarrow> json option"
  json_dumps :: "json \<Rightarrow> string"

section \<open>Float arithmetic\<close>

text \<open>Rounding a rational to the nearest integer, ties to the even one.\<close>

definition rhe :: "rat \<Rightarrow> int" where
  "rhe q = (let f = \<lfloor>q\<rfloor>; d = q - of_int f in
     if d < 1 / 2 then f else if 1 / 2 < d then f + 1 else if even f then f else f + 1)"

text \<open>The binary exponent of a non-zero rational: \<open>2 powi expo x \<le> \<bar>x\<bar> < 2 powi (expo x + 1)\<close>.\<close>

definition expo :: "rat \<Rightarrow> int" where
  "expo x = (let a = fst (quotient_of \<bar>x\<bar>); b = snd (quotient_of \<bar>x\<bar>);
       e0 = int (floorlog 2 (nat a)) - int (floorlog 2 (nat b))
     in if 2 powi e0 \<le> \<bar>x\<bar> then e0 else e0 - 1)"

text \<open>
  Rounding to binary64: 53 significant bits, the exponent not below \<open>-1022\<close> (so that
  small values round on the subnormal grid of spacing \<open>2 powi (-1074)\<close>): \<open>ulp x\<close> is
  the spacing of the floats around \<open>x\<close> and \<open>rnd x\<close> the multiple of it nearest to \<open>x\<close>.
  A rounded magnitude of \<open>2 powi 1024\<close> or more is an infinity.
\<close>

definition ulp :: "rat \<Rightarrow> rat" where
  "ulp x = 2 powi (max (expo x) (- 1022) - 52)"

definition rnd :: "rat \<Rightarrow> rat" where
  "rnd x = of_int (rhe (x / ulp x)) * ulp x"

definition fl :: "rat \<Rightarrow> pyfloat" where
  "fl x = (if x = 0 then Fin 0
     else if 2 powi 1024 \<le> rnd x then PInf
     else if rnd x \<le> - (2 powi 1024) then NInf
     else Fin (rnd x))"

definition inf_of :: "rat \<Rightarrow> pyfloat" where
  "inf_of s = (if s = 0 then NaN else if 0 < s then PInf else NInf)"

fun fneg :: "pyfloat \<Rightarrow> pyfloat" where
  "fneg (Fin a) = Fin (- a)"
| "fneg PInf = NInf"
| "fneg NInf = PInf"
| "fneg NaN = NaN"

fun fadd :: "pyfloat \<Rightarrow> pyfloat \<Rightarrow> pyfloat" where
  "fadd (Fin a) (Fin b) = fl (a + b)"
| "fadd NaN y = NaN"
| "fadd x NaN = NaN"
| "fadd PInf NInf = NaN"
| "fadd NInf PInf = NaN"
| "fadd PInf y = PInf"
| "fadd NInf y = NInf"
| "fadd (Fin a) y = y"

definition fsub :: "pyfloat \<Rightarrow> pyfloat \<Rightarrow> pyfloat" where
  "fsub x y = fadd x (fneg y)"

fun fmul :: "pyfloat \<Rightarrow> pyfloat \<Rightarrow> pyfloat" where
  "fmul (Fin a) (Fin b) = fl (a * b)"
| "fmul NaN y = NaN"
| "fmul x NaN = NaN"
| "fmul (Fin a) PInf = inf_of a"
| "fmul (Fin a) NInf = inf_of (- a)"
| "fmul PInf (Fin b) = inf_of b"
| "fmul NInf (Fin b) = inf_of (- b)"
| "fmul PInf PInf = PInf"
| "fmul PInf NInf = NInf"
| "fmul NInf PInf = NInf"
| "fmul NInf NInf = PInf"

text \<open>
  Python's \<^verbatim>\<open>x / y\<close> on floats raises \<^verbatim>\<open>ZeroDivisionError\<close> when \<^verbatim>\<open>y == 0.0\<close>, whatever
  \<^verbatim>\<open>x\<close> is, and is the IEEE quotient otherwise.
\<close>

definition truediv :: "pyfloat \<Rightarrow> pyfloat \<Rightarrow> error + pyfloat" where
  "truediv x y =
     (case y of
        Fin d \<Rightarrow>
          if d = 0 then Inl ZeroDivisionError
          else Inr (case x of Fin n \<Rightarrow> fl (n / d) | PInf \<Rightarrow> inf_of d
                            | NInf \<Rightarrow> inf_of (- d) | NaN \<Rightarrow> NaN)
      | NaN \<Rightarrow> Inr NaN
      | _ \<Rightarrow> Inr (case x of Fin n \<Rightarrow> Fin 0 | _ \<Rightarrow> NaN))"

text \<open>The comparison \<^verbatim>\<open>x < y\<close>: false whenever an operand is NaN.\<close>

fun flt :: "pyfloat \<Rightarrow> pyfloat \<Rightarrow> bool" where
  "flt (Fin a) (Fin b) = (a < b)"
| "flt NaN y = False"
| "flt x NaN = False"
| "flt x NInf = False"
| "flt PInf y = False"
| "flt NInf y = True"
| "flt (Fin a) PInf = True"

text \<open>
  The builtins \<^verbatim>\<open>min(a, b)\<close> and \<^verbatim>\<open>max(a, b)\<close> keep the first argument unless the second
  is strictly smaller (larger).
\<close>

definition py_min :: "pyfloat \<Rightarrow> pyfloat \<Rightarrow> pyfloat" where
  "py_min a b = (if flt b a then b else a)"

definition py_max :: "pyfloat \<Rightarrow> pyfloat \<Rightarrow> pyfloat" where
  "py_max a b = (if flt a b then b else a)"

text \<open>
  The builtin \<^verbatim>\<open>round(x, 2)\<close> on a float: an infinity or a NaN is returned as it is; a
  finite value is rounded to two decimals exactly (ties to even, on the exact value of
  the float) and the decimal is converted back to the nearest float; a result too
  large for a float raises \<^verbatim>\<open>OverflowError\<close>.
\<close>

definition py_round2 :: "pyfloat \<Rightarrow> error + pyfloat" where
  "py_round2 x =
     (case x of
        Fin a \<Rightarrow> (case fl (of_int (rhe (a * 100)) / 100) of
                     Fin r \<Rightarrow> Inr (Fin r)
                   | _ \<Rightarrow> Inl OverflowError)
      | _ \<Rightarrow> Inr x)"

text \<open>A float that is neither negative nor NaN (used in the proofs only).\<close>

definition nonneg :: "pyfloat \<Rightarrow> bool" where
  "nonneg x = (case x of Fin r \<Rightarrow> 0 \<le> r | PInf \<Rightarrow> True | _ \<Rightarrow> False)"

section \<open>The source functions\<close>

text \<open>List indexing with a non-negative index: out of range raises \<^verbatim>\<open>IndexError\<close>.\<close>

definition getitem :: "'a list \<Rightarrow> nat \<Rightarrow> error + 'a" where
  "getitem xs i = (if i < length xs then Inr (xs ! i) else Inl IndexError)"

definition expected_features :: string where
  "expected_features =
     ''Expected 6 features: total_spend, avg_spend, num_transactions, total_units, unique_products, recency_days''"

text \<open>
  \<^verbatim>\<open>run_model\<close>: the length check, then the row
  \<^verbatim>\<open>[features[5], features[2], features[0], features[1]]\<close> handed to the model.
\<close>

definition run_model :: "env \<Rightarrow> pyfloat list \<Rightarrow> event list \<times> (error + pyfloat)" where
  "run_model env fs =
     (if length fs < 6 then ([], Inl (HTTPException 400 (JStr expected_features)))
      else (let X = [fs ! 5, fs ! 2, fs ! 0, fs ! 1]
            in ([ModelPredict X],
                (case predict env X of Inl e \<Rightarrow> Inl (ExternalError e) | Inr y \<Rightarrow> Inr y))))"

text \<open>
  \<^verbatim>\<open>purchase_probability_30d\<close>. The literals \<^verbatim>\<open>0.6\<close>, \<^verbatim>\<open>0.4\<close>, \<^verbatim>\<open>0.05\<close> and \<^verbatim>\<open>0.95\<close> are the
  floats nearest to these decimals; \<^verbatim>\<open>10\<close>, \<^verbatim>\<open>45\<close>, \<^verbatim>\<open>1.0\<close> and \<^verbatim>\<open>0.0\<close> are exact.
\<close>

definition purchase_probability_30d :: "pyfloat list \<Rightarrow> error + pyfloat" where
  "purchase_probability_30d fs =
     (case getitem fs 2 of Inl e \<Rightarrow> Inl e | Inr num_txns \<Rightarrow>
     (case getitem fs 5 of Inl e \<Rightarrow> Inl e | Inr recency_days \<Rightarrow>
     (case truediv num_txns (Fin 10) of Inl e \<Rightarrow> Inl e | Inr q1 \<Rightarrow>
     (case truediv recency_days (Fin 45) of Inl e \<Rightarrow> Inl e | Inr q2 \<Rightarrow>
        (let freq_score = py_min q1 (Fin 1);
             recency_score = py_max (Fin 0) (fsub (Fin 1) q2);
             probability = fadd (fmul (fl (6 / 10)) recency_score)
                                (fmul (fl (4 / 10)) freq_score)
         in py_round2 (py_min (py_max probability (fl (5 / 100))) (fl (95 / 100))))))))"

definition quoted :: "string \<Rightarrow> string" where
  "quoted s = CHR 0x22 # s @ [CHR 0x22]"

definition SYSTEM_PROMPT :: string where
  "SYSTEM_PROMPT = concat
     [''\<newline>You are a retail analytics expert.\<newline>\<newline>'',
      ''Given a customer's predicted future spend and purchase likelihood\<newline>'',
      ''over the next 30 days, generate a structured business interpretation.\<newline>\<newline>'',
      ''Respond with a valid JSON object containing EXACTLY these keys:\<newline>'',
      ''- '', quoted ''customer_id'', ''\<newline>'',
      ''- '', quoted ''predicted_future_spend_30d'', ''\<newline>'',
      ''- '', quoted ''customer_segment'', '' (Low Value, Medium Value, High Value)\<newline>'',
      ''- '', quoted ''insight'', ''\<newline>'',
      ''- '', quoted ''recommended_action'', ''\<newline>\<newline>'',
      ''Do NOT invent numeric values.\<newline>'',
      ''Do NOT output anything outside the JSON object.\<newline>'']"

definition build_messages :: "env \<Rightarrow> json \<Rightarrow> message list" where
  "build_messages env payload =
     [\<lparr>role = ''system'', content = SYSTEM_PROMPT\<rparr>,
      \<lparr>role = ''user'',
       content = ''Here is the customer prediction data:\<newline>'' @ json_dumps env payload
                 @ ''\<newline>Return only the required JSON.''\<rparr>]"

definition default_model_name :: string where
  "default_model_name = ''llama-3.3-70b-versatile''"

text \<open>\<^verbatim>\<open>call_llm\<close>: one request; any exception of the client becomes a 502.\<close>

definition call_llm :: "env \<Rightarrow> message list \<Rightarrow> string \<Rightarrow> event list \<times> (error + string)" where
  "call_llm env msgs model_name =
     (let req = \<lparr>model = model_name, messages = msgs, temperature = Fin 0,
                 max_tokens = 400, response_format = [(''type'', ''json_object'')]\<rparr>
      in ([LLMCall req],
          (case chat_create env req of
             Inl e \<Rightarrow> Inl (HTTPException 502 (JStr (''LLM call failed: '' @ e)))
           | Inr c \<Rightarrow> Inr c)))"

text \<open>
  \<^verbatim>\<open>str.strip()\<close>: leading and trailing whitespace removed. A character is its code
  point, below 256; these are the whitespace code points of that range.
\<close>

definition is_space :: "char \<Rightarrow> bool" where
  "is_space c = (of_char c \<in> set [9, 10, 11, 12, 13, 28, 29, 30, 31, 32, 133, 160 :: nat])"

definition strip :: "string \<Rightarrow> string" where
  "strip s = rev (dropWhile is_space (rev (dropWhile is_space s)))"

definition llm_input :: "string \<Rightarrow> pyfloat \<Rightarrow> pyfloat \<Rightarrow> json" where
  "llm_input cid spend probability =
     JObj [(''customer_id'', JStr cid),
           (''predicted_future_spend_30d'', JNum spend),
           (''purchase_probability_30d'', JNum probability)]"

definition required_keys :: "string list" where
  "required_keys =
     [''customer_id'', ''predicted_future_spend_30d'', ''customer_segment'', ''insight'',
      ''recommended_action'']"

text \<open>
  The handler \<^verbatim>\<open>predict_customer_value\<close>. \<^verbatim>\<open>parsed.keys()\<close> exists on a dict only: any
  other JSON value raises \<^verbatim>\<open>AttributeError\<close>. An assignment \<^verbatim>\<open>parsed[k] = v\<close> replaces
  the value of an existing key in place and appends a new key (\<open>AList.update\<close>). The
  dict \<^verbatim>\<open>llm_input\<close> is a function of the three values it holds. The result is the
  dict the handler returns; its validation against \<^verbatim>\<open>CustomerPredictionResponse\<close> and
  its serialisation are the framework's and are not modelled.
\<close>

definition predict_customer_value ::
  "env \<Rightarrow> request \<Rightarrow> event list \<times> (error + (string \<times> json) list)" where
  "predict_customer_value env data =
     (case run_model env (features data) of
        (t1, Inl e) \<Rightarrow> (t1, Inl e)
      | (t1, Inr future_spend) \<Rightarrow>
     (case purchase_probability_30d (features data) of
        Inl e \<Rightarrow> (t1, Inl e)
      | Inr probability \<Rightarrow>
     (case py_round2 future_spend of
        Inl e \<Rightarrow> (t1, Inl e)
      | Inr spend \<Rightarrow>
     (case call_llm env
             (build_messages env (llm_input (strip (customer_id data)) spend probability))
             default_model_name of
        (t2, Inl e) \<Rightarrow> (t1 @ t2, Inl e)
      | (t2, Inr llm_output) \<Rightarrow>
     (case json_loads env llm_output of
        None \<Rightarrow>
          (t1 @ t2, Inl (HTTPException 502
             (JObj [(''error'', JStr ''Invalid JSON from LLM''), (''raw'', JStr llm_output)])))
      | Some parsed \<Rightarrow>
     (case parsed of
        JObj kv \<Rightarrow>
          if set required_keys \<subseteq> fst ` set kv
          then (t1 @ t2, Inr
                  (AList.update ''purchase_probability_30d'' (JNum probability)
                    (AList.update ''predicted_future_spend_30d'' (JNum spend)
                      (AList.update ''customer_id'' (JStr (strip (customer_id data))) kv))))
          else (t1 @ t2, Inl (HTTPException 502
                  (JObj [(''error'', JStr ''Missing keys in LLM response''), (''raw'', parsed)])))
      | _ \<Rightarrow> (t1 @ t2, Inl AttributeError)))))))"

text \<open>
  The route: the body is validated against \<^verbatim>\<open>CustomerPredictionRequest\<close>
  (\<^verbatim>\<open>min_length=1\<close> on \<^verbatim>\<open>customer_id\<close>, \<^verbatim>\<open>min_items=1\<close> on \<^verbatim>\<open>features\<close>) before the
  handler is called. The source registers no exception handler, so the status codes are
  the framework's defaults: the code of an \<^verbatim>\<open>HTTPException\<close>, 422 for a request that
  fails validation, 500 for any other exception.
\<close>

definition schema_ok :: "request \<Rightarrow> bool" where
  "schema_ok data = (1 \<le> length (customer_id data) \<and> 1 \<le> length (features data))"

definition endpoint :: "env \<Rightarrow> request \<Rightarrow> event list \<times> (error + (string \<times> json) list)" where
  "endpoint env data =
     (if schema_ok data then predict_customer_value env data
      else ([], Inl RequestValidationError))"

fun status_code :: "error \<Rightarrow> nat" where
  "status_code (HTTPException s d) = s"
| "status_code RequestValidationError = 422"
| "status_code e = 500"

section \<open>A concrete deployment\<close>

text \<open>
  A request, four replies of the language model (one complete, one without
  \<^verbatim>\<open>insight\<close>, the empty JSON list \<^verbatim>\<open>[]\<close>, and any other text, which is not JSON) and
  collaborators that answer them: the inputs at which the theorems below are exercised.
\<close>

definition demo_features :: "pyfloat list" where
  "demo_features = [Fin 100, Fin 20, Fin 5, Fin 50, Fin 10, Fin 30]"

definition demo_object :: "(string \<times> json) list" where
  "demo_object =
     [(''customer_id'', JStr ''someone else''),
      (''predicted_future_spend_30d'', JInt 0),
      (''customer_segment'', JStr ''High Value''),
      (''insight'', JStr ''Recent and frequent buyer.''),
      (''recommended_action'', JStr ''Offer a loyalty reward.'')]"

definition demo_text_full :: string where
  "demo_text_full = concat
     [''{'', quoted ''customer_id'', '': '', quoted ''someone else'', '', '',
      quoted ''predicted_future_spend_30d'', '': 0, '',
      quoted ''customer_segment'', '': '', quoted ''High Value'', '', '',
      quoted ''insight'', '': '', quoted ''Recent and frequent buyer.'', '', '',
      quoted ''recommended_action'', '': '', quoted ''Offer a loyalty reward.'', ''}'']"

definition demo_text_partial :: string where
  "demo_text_partial = concat
     [''{'', quoted ''customer_id'', '': '', quoted ''someone else'', '', '',
      quoted ''predicted_future_spend_30d'', '': 0, '',
      quoted ''customer_segment'', '': '', quoted ''High Value'', '', '',
      quoted ''recommended_action'', '': '', quoted ''Offer a loyalty reward.'', ''}'']"

definition demo_loads :: "string \<Rightarrow> json option" where
  "demo_loads s =
     (if s = demo_text_full then Some (JObj demo_object)
      else if s = demo_text_partial
        then Some (JObj (filter (\<lambda>p. fst p \<noteq> ''insight'') demo_object))
      else if s = ''[]'' then Some (JArr [])
      else None)"

definition demo_env :: "string \<Rightarrow> env" where
  "demo_env reply =
     \<lparr>predict = (\<lambda>X. Inr (Fin 250)), chat_create = (\<lambda>req. Inr reply),
      json_loads = demo_loads, json_dumps = (\<lambda>j. ''{}'')\<rparr>"

definition demo_request :: request where
  "demo_request = \<lparr>customer_id = '' C-17 '', features = demo_features\<rparr>"

text \<open>The request the handler sends to the language model for \<open>demo_request\<close>.\<close>

definition demo_chat_request :: "string \<Rightarrow> chat_request" where
  "demo_chat_request reply =
     \<lparr>model = default_model_name,
      messages = build_messages (demo_env reply)
        (llm_input ''C-17'' (Fin 250) (Fin (3602879701896397 / 9007199254740992))),
      temperature = Fin 0, max_tokens = 400,
      response_format = [(''type'', ''json_object'')]\<rparr>"

definition short_request :: request where
  "short_request = \<lparr>customer_id = ''C-17'', features = [Fin 100, Fin 20, Fin 5]\<rparr>"

definition anonymous_request :: request where
  "anonymous_request = \<lparr>customer_id = [], features = demo_features\<rparr>"

section \<open>Facts about rounding\<close>

text \<open>
  The exponent function finds the binade of its argument, so \<open>rnd\<close> can be computed
  from any exponent that brackets the argument (\<open>rnd_eval\<close>, \<open>fl_eval\<close>); rounding is
  monotone on the positive rationals (\<open>rnd_mono_pos\<close>).
\<close>

lemma floorlog_pos: "0 < n \<Longrightarrow> 0 < floorlog 2 n"
  by (simp add: floorlog_def)

lemma nat_pow2_bounds:
  assumes "0 < (a::int)"
  shows "(2::rat) powi (int (floorlog 2 (nat a)) - 1) \<le> of_int a
       \<and> of_int a < (2::rat) powi (int (floorlog 2 (nat a)))"
proof -
  let ?l = "floorlog 2 (nat a)"
  have n: "0 < nat a" using assms by simp
  have lp: "0 < ?l" by (rule floorlog_pos [OF n])
  from floorlog_bounds [OF n, of 2]
  have b: "2 ^ (?l - 1) \<le> nat a" "nat a < 2 ^ ?l" by simp_all
  have "(of_nat (2 ^ (?l - 1)) :: rat) \<le> of_nat (nat a)"
    using b(1) by (simp only: of_nat_le_iff)
  then have lo: "(2::rat) ^ (?l - 1) \<le> of_int a" using assms by simp
  have "(of_nat (nat a) :: rat) < of_nat (2 ^ ?l)"
    using b(2) by (simp only: of_nat_less_iff)
  then have hi: "of_int a < (2::rat) ^ ?l" using assms by simp
  have e: "int ?l - 1 = int (?l - 1)" using lp by simp
  show ?thesis using lo hi by (simp only: e power_int_of_nat)
qed

lemma expo_bounds:
  assumes "x \<noteq> 0"
  shows "2 powi expo x \<le> \<bar>x\<bar> \<and> \<bar>x\<bar> < 2 powi (expo x + 1)"
proof -
  define a where "a = fst (quotient_of \<bar>x\<bar>)"
  define b where "b = snd (quotient_of \<bar>x\<bar>)"
  define e0 where "e0 = int (floorlog 2 (nat a)) - int (floorlog 2 (nat b))"
  have bpos: "0 < b" unfolding b_def by (rule quotient_of_denom_pos')
  have xab: "\<bar>x\<bar> = of_int a / of_int b"
    unfolding a_def b_def by (rule quotient_of_div) simp
  have xpos: "0 < \<bar>x\<bar>" using assms by simp
  have apos: "0 < a"
    using xpos bpos unfolding xab by (simp add: zero_less_divide_iff)
  note A = nat_pow2_bounds [OF apos]
  note B = nat_pow2_bounds [OF bpos]
  have bq: "(0::rat) < of_int b" using bpos by simp
  have up: "\<bar>x\<bar> < 2 powi (e0 + 1)"
  proof -
    have "of_int a < (2::rat) powi (int (floorlog 2 (nat a)))" using A by simp
    also have "\<dots> = (2::rat) powi (e0 + 1) * 2 powi (int (floorlog 2 (nat b)) - 1)"
      by (simp add: e0_def flip: power_int_add)
    also have "\<dots> \<le> 2 powi (e0 + 1) * of_int b"
      using B by (intro mult_left_mono) simp_all
    finally have "(of_int a :: rat) < 2 powi (e0 + 1) * of_int b" .
    then show ?thesis using bq by (simp add: xab pos_divide_less_eq)
  qed
  have lo: "2 powi (e0 - 1) \<le> \<bar>x\<bar>"
  proof -
    have "(2::rat) powi (e0 - 1) * of_int b
        \<le> 2 powi (e0 - 1) * (2::rat) powi (int (floorlog 2 (nat b)))"
      using B by (intro mult_left_mono) simp_all
    also have "\<dots> = 2 powi (int (floorlog 2 (nat a)) - 1)"
      using power_int_add [of "2::rat" "e0 - 1" "int (floorlog 2 (nat b))"]
      by (simp add: e0_def)
    also have "\<dots> \<le> of_int a" using A by simp
    finally have "(2::rat) powi (e0 - 1) * of_int b \<le> of_int a" .
    then show ?thesis using bq by (simp add: xab pos_le_divide_eq)
  qed
  have ex: "expo x = (if 2 powi e0 \<le> \<bar>x\<bar> then e0 else e0 - 1)"
    by (simp add: expo_def Let_def a_def b_def e0_def)
  show ?thesis
  proof (cases "2 powi e0 \<le> \<bar>x\<bar>")
    case True
    then show ?thesis using up by (simp add: ex)
  next
    case False
    then show ?thesis using lo by (simp add: ex)
  qed
qed

lemma pow2_le_abs_nonzero:
  assumes "(2::rat) powi e \<le> \<bar>x\<bar>"
  shows "x \<noteq> 0"
proof
  assume "x = 0"
  then have "(2::rat) powi e \<le> 0" using assms by simp
  moreover have "(0::rat) < 2 powi e" by simp
  ultimately show False by simp
qed

lemma expo_unique:
  assumes "2 powi e \<le> \<bar>x\<bar>" and "\<bar>x\<bar> < 2 powi (e + 1)"
  shows "expo x = e"
proof -
  note b = expo_bounds [OF pow2_le_abs_nonzero [OF assms(1)]]
  have "\<not> e + 1 \<le> expo x"
  proof
    assume "e + 1 \<le> expo x"
    then have "(2::rat) powi (e + 1) \<le> 2 powi expo x"
      by (intro power_int_increasing) simp_all
    then show False using b assms by linarith
  qed
  moreover have "\<not> expo x + 1 \<le> e"
  proof
    assume "expo x + 1 \<le> e"
    then have "(2::rat) powi (expo x + 1) \<le> 2 powi e"
      by (intro power_int_increasing) simp_all
    then show False using b assms by linarith
  qed
  ultimately show ?thesis by simp
qed

lemma expo_mono:
  assumes "0 < x" and "x \<le> y"
  shows "expo x \<le> expo y"
proof (rule ccontr)
  assume "\<not> expo x \<le> expo y"
  then have "expo y + 1 \<le> expo x" by simp
  then have "(2::rat) powi (expo y + 1) \<le> 2 powi expo x"
    by (intro power_int_increasing) simp_all
  moreover have "2 powi expo x \<le> \<bar>x\<bar>" using expo_bounds [of x] assms by simp
  moreover have "\<bar>y\<bar> < 2 powi (expo y + 1)" using expo_bounds [of y] assms by simp
  ultimately show False using assms by linarith
qed

lemma rhe_bounds: "\<lfloor>q\<rfloor> \<le> rhe q \<and> rhe q \<le> \<lfloor>q\<rfloor> + 1"
  by (simp add: rhe_def Let_def)

lemma rhe_of_int: "rhe (of_int n) = n"
  by (simp add: rhe_def Let_def)

lemma rhe_mono:
  assumes "x \<le> y"
  shows "rhe x \<le> rhe y"
proof (cases "\<lfloor>x\<rfloor> = \<lfloor>y\<rfloor>")
  case True
  have "x - of_int \<lfloor>y\<rfloor> \<le> y - of_int \<lfloor>y\<rfloor>" using assms by simp
  then show ?thesis by (simp add: rhe_def Let_def True)
next
  case False
  have "\<lfloor>x\<rfloor> \<le> \<lfloor>y\<rfloor>" using assms by (rule floor_mono)
  with False have "\<lfloor>x\<rfloor> + 1 \<le> \<lfloor>y\<rfloor>" by simp
  then show ?thesis using rhe_bounds [of x] rhe_bounds [of y] by linarith
qed

lemma rhe_nonneg: "0 \<le> q \<Longrightarrow> 0 \<le> rhe q"
  using rhe_mono [of 0 q] rhe_of_int [of 0] by simp

lemma rhe_frac:
  assumes "0 < d"
  shows "rhe (of_int n / of_int d) =
     (if 2 * (n mod d) < d then n div d
      else if d < 2 * (n mod d) then n div d + 1
      else if even (n div d) then n div d else n div d + 1)"
proof -
  have dq: "(0::rat) < of_int d" using assms by simp
  have fl: "\<lfloor>(of_int n / of_int d :: rat)\<rfloor> = n div d"
    by (rule floor_divide_of_int_eq)
  have "(of_int n :: rat) = of_int (n div d * d + n mod d)" by simp
  also have "\<dots> = of_int (n div d) * of_int d + of_int (n mod d)"
    by (simp only: of_int_add of_int_mult)
  finally have fr: "(of_int n / of_int d :: rat) - of_int (n div d) = of_int (n mod d) / of_int d"
    using dq by (simp add: field_simps)
  have lt: "(of_int (n mod d) / of_int d < (1::rat) / 2) = (2 * (n mod d) < d)"
  proof -
    have "(of_int (n mod d) / of_int d < (1::rat) / 2)
        = ((of_int (2 * (n mod d)) :: rat) < of_int d)"
      using dq by (simp add: field_simps)
    then show ?thesis by (simp only: of_int_less_iff)
  qed
  have gt: "((1::rat) / 2 < of_int (n mod d) / of_int d) = (d < 2 * (n mod d))"
  proof -
    have "((1::rat) / 2 < of_int (n mod d) / of_int d)
        = ((of_int d :: rat) < of_int (2 * (n mod d)))"
      using dq by (simp add: field_simps)
    then show ?thesis by (simp only: of_int_less_iff)
  qed
  show ?thesis
    unfolding rhe_def Let_def fl fr lt gt by (rule refl)
qed

lemma rhe_numeral_frac:
  "rhe (numeral a / numeral b) =
     (if 2 * (numeral a mod numeral b) < (numeral b :: int) then numeral a div numeral b
      else if numeral b < 2 * (numeral a mod numeral b :: int) then numeral a div numeral b + 1
      else if even (numeral a div numeral b :: int) then numeral a div numeral b
      else numeral a div numeral b + 1)"
  using rhe_frac [of "numeral b" "numeral a"] by simp

lemma rhe_numeral: "rhe (numeral a) = numeral a"
  using rhe_of_int [of "numeral a"] by simp

lemma ulp_pos: "0 < ulp x"
  by (simp add: ulp_def)

lemma rnd_nonneg: "0 \<le> x \<Longrightarrow> 0 \<le> rnd x"
  using ulp_pos [of x] by (simp add: rnd_def rhe_nonneg)

lemma rnd_eval:
  assumes "2 powi e \<le> \<bar>x\<bar>" and "\<bar>x\<bar> < 2 powi (e + 1)"
  shows "rnd x = of_int (rhe (x / 2 powi (max e (- 1022) - 52))) * 2 powi (max e (- 1022) - 52)"
  by (simp add: rnd_def ulp_def expo_unique [OF assms])

lemma fl_eval:
  assumes "2 powi e \<le> \<bar>x\<bar>" and "\<bar>x\<bar> < 2 powi (e + 1)"
    and "of_int (rhe (x / 2 powi (max e (- 1022) - 52))) * 2 powi (max e (- 1022) - 52) = r"
    and "- (2 powi 1024) < r" and "r < 2 powi 1024"
  shows "fl x = Fin r"
proof -
  have "rnd x = r" using rnd_eval [OF assms(1,2)] assms(3) by simp
  then show ?thesis
    using pow2_le_abs_nonzero [OF assms(1)] assms(4,5) by (simp add: fl_def)
qed

lemma rnd_mono_pos:
  assumes "0 < x" and "x \<le> y"
  shows "rnd x \<le> rnd y"
proof -
  define ex where "ex = max (expo x) (- 1022)"
  define ey where "ey = max (expo y) (- 1022)"
  have ux: "ulp x = 2 powi (ex - 52)" and uy: "ulp y = 2 powi (ey - 52)"
    by (simp_all add: ulp_def ex_def ey_def)
  have le: "ex \<le> ey" using expo_mono [OF assms] by (simp add: ex_def ey_def)
  show ?thesis
  proof (cases "ex = ey")
    case True
    then have u: "ulp x = ulp y" by (simp add: ux uy)
    have "x / ulp y \<le> y / ulp y" using assms ulp_pos [of y] by (simp add: divide_right_mono)
    then have "rhe (x / ulp y) \<le> rhe (y / ulp y)" by (rule rhe_mono)
    then have "(of_int (rhe (x / ulp y)) :: rat) \<le> of_int (rhe (y / ulp y))" by simp
    then show ?thesis using ulp_pos [of y] by (simp add: rnd_def u)
  next
    case False
    with le have lt: "ex + 1 \<le> ey" by simp
    then have eyx: "ey = expo y" by (simp add: ey_def ex_def)
    have xb: "x < 2 powi (ex + 1)"
    proof -
      have "\<bar>x\<bar> < 2 powi (expo x + 1)" using expo_bounds [of x] assms by simp
      also have "\<dots> \<le> 2 powi (ex + 1)"
        by (intro power_int_increasing) (simp_all add: ex_def)
      finally show ?thesis using assms by simp
    qed
    have e53: "ex + 1 = 53 + (ex - 52)" by simp
    have p53: "(2::rat) powi (ex + 1) = 2 powi 53 * 2 powi (ex - 52)"
      by (subst e53, rule power_int_add) simp
    have "x / ulp x \<le> 2 powi 53" using xb ulp_pos [of x]
      by (simp add: ux p53 pos_divide_le_eq)
    then have "rhe (x / ulp x) \<le> rhe (2 powi 53)" by (rule rhe_mono)
    also have "(2::rat) powi 53 = of_int (2 ^ 53)" by simp
    finally have "rhe (x / ulp x) \<le> 2 ^ 53" by (simp only: rhe_of_int)
    then have "(of_int (rhe (x / ulp x)) :: rat) \<le> of_int (2 ^ 53)"
      by (simp only: of_int_le_iff)
    then have "rnd x \<le> 2 powi 53 * 2 powi (ex - 52)"
      using ulp_pos [of x] by (simp add: rnd_def ux)
    then have r1: "rnd x \<le> 2 powi (ex + 1)" by (simp only: p53)
    have r2: "(2::rat) powi (ex + 1) \<le> 2 powi ey"
      using lt by (intro power_int_increasing) simp_all
    have ypos: "0 < y" using assms by simp
    have yb: "2 powi ey \<le> y" using expo_bounds [of y] ypos by (simp add: eyx)
    have e52: "ey = 52 + (ey - 52)" by simp
    have p52: "(2::rat) powi ey = 2 powi 52 * 2 powi (ey - 52)"
      by (subst e52, rule power_int_add) simp
    have "2 powi 52 \<le> y / ulp y" using yb ulp_pos [of y]
      by (simp add: uy p52 pos_le_divide_eq)
    then have "rhe (2 powi 52) \<le> rhe (y / ulp y)" by (rule rhe_mono)
    moreover have "(2::rat) powi 52 = of_int (2 ^ 52)" by simp
    ultimately have "2 ^ 52 \<le> rhe (y / ulp y)" by (simp only: rhe_of_int)
    then have "(of_int (2 ^ 52) :: rat) \<le> of_int (rhe (y / ulp y))"
      by (simp only: of_int_le_iff)
    then have "2 powi 52 * 2 powi (ey - 52) \<le> rnd y"
      using ulp_pos [of y] by (simp add: rnd_def uy)
    then have r3: "2 powi ey \<le> rnd y" by (simp only: p52)
    show ?thesis using r1 r2 r3 by linarith
  qed
qed

section \<open>Properties of the source functions\<close>

lemma strip_demo: "strip '' C-17 '' = ''C-17''"
  by (simp add: strip_def is_space_def)

lemma run_model_short:
  "length fs < 6 \<Longrightarrow> run_model env fs = ([], Inl (HTTPException 400 (JStr expected_features)))"
  by (simp add: run_model_def)

lemma run_model_long:
  "6 \<le> length fs \<Longrightarrow>
   run_model env fs =
     ([ModelPredict [fs ! 5, fs ! 2, fs ! 0, fs ! 1]],
      (case predict env [fs ! 5, fs ! 2, fs ! 0, fs ! 1] of
         Inl e \<Rightarrow> Inl (ExternalError e) | Inr y \<Rightarrow> Inr y))"
  by (simp add: run_model_def Let_def)

lemma run_model_Inr_length: "run_model env fs = (t, Inr v) \<Longrightarrow> 6 \<le> length fs"
  by (cases "length fs < 6") (simp_all add: run_model_short)

lemma truediv_Fin:
  "d \<noteq> 0 \<Longrightarrow> truediv (Fin n) (Fin d) = Inr (fl (n / d))"
  by (simp add: truediv_def)

lemma truediv_const_no_error: "d \<noteq> 0 \<Longrightarrow> \<exists>q. truediv x (Fin d) = Inr q"
  by (simp add: truediv_def)

lemma py_round2_not_IndexError: "py_round2 x \<noteq> Inl IndexError"
  by (simp add: py_round2_def split: pyfloat.splits)

lemma pp_short: "length fs < 6 \<Longrightarrow> purchase_probability_30d fs = Inl IndexError"
proof -
  assume len: "length fs < 6"
  show ?thesis
  proof (cases "2 < length fs")
    case False
    then show ?thesis by (simp add: purchase_probability_30d_def getitem_def)
  next
    case True
    with len show ?thesis by (simp add: purchase_probability_30d_def getitem_def)
  qed
qed

lemma pp_long:
  assumes "6 \<le> length fs"
  shows "purchase_probability_30d fs =
     (case truediv (fs ! 2) (Fin 10) of Inl e \<Rightarrow> Inl e | Inr q1 \<Rightarrow>
     (case truediv (fs ! 5) (Fin 45) of Inl e \<Rightarrow> Inl e | Inr q2 \<Rightarrow>
        py_round2 (py_min (py_max
          (fadd (fmul (fl (6 / 10)) (py_max (Fin 0) (fsub (Fin 1) q2)))
                (fmul (fl (4 / 10)) (py_min q1 (Fin 1))))
          (fl (5 / 100))) (fl (95 / 100)))))"
  using assms by (simp add: purchase_probability_30d_def getitem_def Let_def split: sum.splits)

lemma pp_long_not_IndexError:
  assumes "6 \<le> length fs"
  shows "purchase_probability_30d fs \<noteq> Inl IndexError"
proof -
  obtain q1 where q1: "truediv (fs ! 2) (Fin 10) = Inr q1"
    using truediv_const_no_error [of 10 "fs ! 2"] by auto
  obtain q2 where q2: "truediv (fs ! 5) (Fin 45) = Inr q2"
    using truediv_const_no_error [of 45 "fs ! 5"] by auto
  show ?thesis
    by (simp add: pp_long [OF assms] q1 q2 py_round2_not_IndexError)
qed

lemma call_llm_trace: "fst (call_llm env msgs m) = [LLMCall \<lparr>model = m, messages = msgs, temperature = Fin 0,
                 max_tokens = 400, response_format = [(''type'', ''json_object'')]\<rparr>]"
  by (simp add: call_llm_def Let_def)

lemma call_llm_not_IndexError: "call_llm env msgs m \<noteq> (t, Inl IndexError)"
  by (simp add: call_llm_def Let_def split: sum.splits)

lemma handler_short:
  "length (features data) < 6 \<Longrightarrow>
   predict_customer_value env data = ([], Inl (HTTPException 400 (JStr expected_features)))"
  by (simp add: predict_customer_value_def run_model_short)

lemma handler_after_reply:
  assumes "run_model env (features data) = (t1, Inr future_spend)"
    and "purchase_probability_30d (features data) = Inr probability"
    and "py_round2 future_spend = Inr spend"
    and "call_llm env (build_messages env (llm_input (strip (customer_id data)) spend probability))
           default_model_name = (t2, Inr llm_output)"
  shows "predict_customer_value env data =
     (case json_loads env llm_output of
        None \<Rightarrow>
          (t1 @ t2, Inl (HTTPException 502
             (JObj [(''error'', JStr ''Invalid JSON from LLM''), (''raw'', JStr llm_output)])))
      | Some parsed \<Rightarrow>
     (case parsed of
        JObj kv \<Rightarrow>
          if set required_keys \<subseteq> fst ` set kv
          then (t1 @ t2, Inr
                  (AList.update ''purchase_probability_30d'' (JNum probability)
                    (AList.update ''predicted_future_spend_30d'' (JNum spend)
                      (AList.update ''customer_id'' (JStr (strip (customer_id data))) kv))))
          else (t1 @ t2, Inl (HTTPException 502
                  (JObj [(''error'', JStr ''Missing keys in LLM response''), (''raw'', parsed)])))
      | _ \<Rightarrow> (t1 @ t2, Inl AttributeError)))"
  using assms by (simp add: predict_customer_value_def)

lemma handler_not_IndexError: "snd (predict_customer_value env data) \<noteq> Inl IndexError"
proof (cases "length (features data) < 6")
  case True
  then show ?thesis by (simp add: handler_short)
next
  case False
  then have len: "6 \<le> length (features data)" by simp
  have pp: "purchase_probability_30d (features data) \<noteq> Inl IndexError"
    by (rule pp_long_not_IndexError [OF len])
  show ?thesis
    using pp
    by (auto simp: predict_customer_value_def run_model_long [OF len]
        py_round2_not_IndexError call_llm_not_IndexError
        split: sum.splits prod.splits option.splits json.splits)
qed


section \<open>Concrete evaluations\<close>

text \<open>The float literals of the source and the heuristic on \<open>demo_features\<close>.\<close>

lemma fl_c06: "fl (6 / 10) = Fin (5404319552844595 / 9007199254740992)"
  by (rule fl_eval [where e = "- 1"]) (simp_all add: rhe_numeral_frac)

lemma fl_c04: "fl (4 / 10) = Fin (3602879701896397 / 9007199254740992)"
  by (rule fl_eval [where e = "- 2"]) (simp_all add: rhe_numeral_frac)

lemma fl_c005: "fl (5 / 100) = Fin (3602879701896397 / 72057594037927936)"
  by (rule fl_eval [where e = "- 5"]) (simp_all add: rhe_numeral_frac)

lemma fl_c095: "fl (95 / 100) = Fin (4278419646001971 / 4503599627370496)"
  by (rule fl_eval [where e = "- 1"]) (simp_all add: rhe_numeral_frac)

lemma demo_q1: "truediv (Fin 5) (Fin 10) = Inr (Fin (1 / 2))"
proof -
  have "fl (5 / 10) = Fin (1 / 2)"
    by (rule fl_eval [where e = "- 1"]) (simp_all add: rhe_numeral)
  then show ?thesis by (simp only: truediv_def pyfloat.case) simp
qed

lemma demo_q2: "truediv (Fin 30) (Fin 45) = Inr (Fin (6004799503160661 / 9007199254740992))"
proof -
  have "fl (30 / 45) = Fin (6004799503160661 / 9007199254740992)"
    by (rule fl_eval [where e = "- 1"]) (simp_all add: rhe_numeral_frac)
  then show ?thesis by (simp only: truediv_def pyfloat.case) simp
qed

lemma demo_s:
  "fsub (Fin 1) (Fin (6004799503160661 / 9007199254740992))
     = Fin (3002399751580331 / 9007199254740992)"
  unfolding fsub_def fneg.simps fadd.simps
  by (rule fl_eval [where e = "- 2"]) (simp_all add: rhe_numeral)

lemma demo_t1:
  "fmul (Fin (5404319552844595 / 9007199254740992)) (Fin (3002399751580331 / 9007199254740992))
     = Fin (3602879701896397 / 18014398509481984)"
  unfolding fmul.simps
  by (rule fl_eval [where e = "- 3"]) (simp_all add: rhe_numeral_frac)

lemma demo_t2:
  "fmul (Fin (3602879701896397 / 9007199254740992)) (Fin (1 / 2))
     = Fin (3602879701896397 / 18014398509481984)"
  unfolding fmul.simps
  by (rule fl_eval [where e = "- 3"]) (simp_all add: rhe_numeral)

lemma demo_p:
  "fadd (Fin (3602879701896397 / 18014398509481984)) (Fin (3602879701896397 / 18014398509481984))
     = Fin (3602879701896397 / 9007199254740992)"
  unfolding fadd.simps
  by (rule fl_eval [where e = "- 2"]) (simp_all add: rhe_numeral)

lemma demo_round:
  "py_round2 (Fin (3602879701896397 / 9007199254740992))
     = Inr (Fin (3602879701896397 / 9007199254740992))"
proof -
  have k: "rhe (3602879701896397 / 9007199254740992 * 100) = 40"
    by (simp add: rhe_numeral_frac)
  have "fl (of_int 40 / 100) = Fin (3602879701896397 / 9007199254740992)"
    by (rule fl_eval [where e = "- 2"]) (simp_all add: rhe_numeral_frac)
  then show ?thesis by (simp only: py_round2_def pyfloat.case k)
qed

lemma pp_demo:
  "purchase_probability_30d demo_features = Inr (Fin (3602879701896397 / 9007199254740992))"
proof -
  have len: "6 \<le> length demo_features" by (simp add: demo_features_def)
  have i2: "demo_features ! 2 = Fin 5" and i5: "demo_features ! 5 = Fin 30"
    by (simp_all add: demo_features_def)
  have m1: "py_max (Fin 0) (Fin (3002399751580331 / 9007199254740992))
      = Fin (3002399751580331 / 9007199254740992)"
    by (simp add: py_max_def)
  have m2: "py_min (Fin (1 / 2)) (Fin 1) = Fin (1 / 2)"
    by (simp add: py_min_def)
  have cl: "py_min (py_max (Fin (3602879701896397 / 9007199254740992))
                           (Fin (3602879701896397 / 72057594037927936)))
                   (Fin (4278419646001971 / 4503599627370496))
      = Fin (3602879701896397 / 9007199254740992)"
    by (simp add: py_min_def py_max_def)
  show ?thesis
    unfolding pp_long [OF len] i2 i5 demo_q1 demo_q2 sum.case fl_c06 fl_c04 fl_c005 fl_c095
      demo_s m1 m2 demo_t1 demo_t2 demo_p cl demo_round
    by (rule refl)
qed

lemma round_demo: "py_round2 (Fin 250) = Inr (Fin 250)"
proof -
  have k: "rhe (250 * 100) = 25000"
    using rhe_of_int [of 25000] by simp
  have "fl (of_int 25000 / 100) = Fin 250"
    by (rule fl_eval [where e = 7]) (simp_all add: rhe_numeral)
  then show ?thesis by (simp only: py_round2_def pyfloat.case k)
qed

lemma run_model_demo:
  "run_model (demo_env reply) demo_features =
     ([ModelPredict [Fin 30, Fin 5, Fin 100, Fin 20]], Inr (Fin 250))"
  by (simp add: run_model_def demo_features_def demo_env_def)

lemma call_llm_demo:
  "call_llm (demo_env reply) (build_messages (demo_env reply)
      (llm_input ''C-17'' (Fin 250) (Fin (3602879701896397 / 9007199254740992))))
      default_model_name = ([LLMCall (demo_chat_request reply)], Inr reply)"
  by (simp add: call_llm_def demo_chat_request_def Let_def demo_env_def)

lemma demo_loads_full: "demo_loads demo_text_full = Some (JObj demo_object)"
  by (simp add: demo_loads_def)




lemma demo_loads_other: "demo_loads ''Sure! Here is the report.'' = None"
  by (simp add: demo_loads_def demo_text_partial_def demo_text_full_def quoted_def)

section \<open>The heuristic never produces NaN and stays in range\<close>

lemma fl_not_NaN: "fl x \<noteq> NaN"
  by (simp add: fl_def)

lemma fl_nonneg: "0 \<le> x \<Longrightarrow> nonneg (fl x)"
  using rnd_nonneg [of x] by (simp add: fl_def nonneg_def)

lemma fl_between:
  assumes "0 < a" and "a \<le> x" and "x \<le> b" and "fl a = Fin l" and "fl b = Fin h"
  shows "\<exists>r. fl x = Fin r \<and> l \<le> r \<and> r \<le> h"
proof -
  have xpos: "0 < x" and bpos: "0 < b" using assms by simp_all
  have la: "l = rnd a" and ha: "h = rnd b" and hb: "rnd b < 2 powi 1024"
    using assms(1,4,5) bpos by (simp_all add: fl_def split: if_splits)
  have lo: "rnd a \<le> rnd x" by (rule rnd_mono_pos [OF assms(1,2)])
  have hi: "rnd x \<le> rnd b" by (rule rnd_mono_pos [OF xpos assms(3)])
  have "0 \<le> rnd x" using xpos by (simp add: rnd_nonneg)
  moreover have "(0::rat) < 2 powi 1024" by simp
  ultimately have "\<not> rnd x \<le> - (2 powi 1024)" by linarith
  moreover have "\<not> 2 powi 1024 \<le> rnd x" using hi hb by linarith
  ultimately have "fl x = Fin (rnd x)" using xpos by (simp add: fl_def)
  then show ?thesis using lo hi la ha by simp
qed

lemma freq_score_range:
  assumes "0 \<le> n"
  shows "\<exists>v. py_min (fl (n / 10)) (Fin 1) = Fin v \<and> 0 \<le> v \<and> v \<le> 1"
proof -
  have "nonneg (fl (n / 10))" using assms by (intro fl_nonneg) simp
  then show ?thesis
    by (cases "fl (n / 10)") (auto simp: nonneg_def py_min_def)
qed

lemma fmul_nonneg: "0 \<le> a \<Longrightarrow> nonneg y \<Longrightarrow> nonneg (fmul (Fin a) y) \<or> (a = 0 \<and> y = PInf)"
  by (cases y) (auto simp: nonneg_def inf_of_def intro: fl_nonneg [unfolded nonneg_def])

lemma recency_score_nonneg: "nonneg (py_max (Fin 0) (fsub (Fin 1) (fl (d / 45))))"
proof (cases "fl (d / 45)")
  case (Fin r)
  then show ?thesis
    using fl_not_NaN [of "1 + - r"]
    by (cases "fl (1 + - r)") (auto simp: fsub_def py_max_def nonneg_def)
next
  case PInf
  then show ?thesis by (simp add: fsub_def py_max_def nonneg_def)
next
  case NInf
  then show ?thesis by (simp add: fsub_def py_max_def nonneg_def)
next
  case NaN
  then show ?thesis using fl_not_NaN [of "d / 45"] by simp
qed

lemma fadd_nonneg: "nonneg x \<Longrightarrow> nonneg y \<Longrightarrow> nonneg (fadd x y)"
proof -
  assume x: "nonneg x" and y: "nonneg y"
  show ?thesis
  proof (cases x)
    case (Fin a)
    note xa = this
    show ?thesis
    proof (cases y)
      case (Fin b)
      then show ?thesis using x y xa fl_nonneg [of "a + b"] by (simp add: nonneg_def)
    qed (use y xa in \<open>simp_all add: nonneg_def\<close>)
  next
    case PInf
    then show ?thesis using y by (cases y) (simp_all add: nonneg_def)
  qed (use x in \<open>simp_all add: nonneg_def\<close>)
qed

lemma clamp_range:
  assumes "p \<noteq> NaN" and "l \<le> h"
  shows "\<exists>c. py_min (py_max p (Fin l)) (Fin h) = Fin c \<and> l \<le> c \<and> c \<le> h"
  using assms by (cases p) (auto simp: py_min_def py_max_def)

lemma py_round2_range:
  assumes "3602879701896397 / 72057594037927936 \<le> c"
    and "c \<le> 4278419646001971 / 4503599627370496"
  shows "\<exists>v. py_round2 (Fin c) = Inr (Fin v)
     \<and> 3602879701896397 / 72057594037927936 \<le> v \<and> v \<le> 4278419646001971 / 4503599627370496"
proof -
  have "(of_int 5 :: rat) \<le> c * 100" using assms(1) by simp
  then have "rhe (of_int 5) \<le> rhe (c * 100)" by (rule rhe_mono)
  then have k5: "5 \<le> rhe (c * 100)" by (simp only: rhe_of_int)
  have "c * 100 \<le> (of_int 95 :: rat)" using assms(2) by simp
  then have "rhe (c * 100) \<le> rhe (of_int 95)" by (rule rhe_mono)
  then have k95: "rhe (c * 100) \<le> 95" by (simp only: rhe_of_int)
  have a: "(5::rat) / 100 \<le> of_int (rhe (c * 100)) / 100"
  proof -
    have "(of_int 5 :: rat) \<le> of_int (rhe (c * 100))" using k5 by (simp only: of_int_le_iff)
    then show ?thesis by simp
  qed
  have b: "of_int (rhe (c * 100)) / 100 \<le> (95::rat) / 100"
  proof -
    have "(of_int (rhe (c * 100)) :: rat) \<le> of_int 95" using k95 by (simp only: of_int_le_iff)
    then show ?thesis by simp
  qed
  have pos: "(0::rat) < 5 / 100" by simp
  from fl_between [OF pos a b fl_c005 fl_c095]
  obtain r where r: "fl (of_int (rhe (c * 100)) / 100) = Fin r"
    "3602879701896397 / 72057594037927936 \<le> r" "r \<le> 4278419646001971 / 4503599627370496"
    by blast
  show ?thesis using r by (simp add: py_round2_def)
qed

section \<open>The handler after the language model has replied\<close>

lemma demo_request_features: "features demo_request = demo_features"
  by (simp add: demo_request_def)

lemma demo_request_id: "strip (customer_id demo_request) = ''C-17''"
  by (simp add: demo_request_def strip_demo)

lemma demo_run_model:
  "run_model (demo_env reply) (features demo_request)
     = ([ModelPredict [Fin 30, Fin 5, Fin 100, Fin 20]], Inr (Fin 250))"
  by (simp only: demo_request_features run_model_demo)

lemma demo_probability:
  "purchase_probability_30d (features demo_request)
     = Inr (Fin (3602879701896397 / 9007199254740992))"
  by (simp only: demo_request_features pp_demo)

lemma demo_call_llm:
  "call_llm (demo_env reply) (build_messages (demo_env reply)
      (llm_input (strip (customer_id demo_request)) (Fin 250)
         (Fin (3602879701896397 / 9007199254740992))))
      default_model_name = ([LLMCall (demo_chat_request reply)], Inr reply)"
  by (simp only: demo_request_id call_llm_demo)

lemma demo_json_loads: "json_loads (demo_env reply) = demo_loads"
  by (simp add: demo_env_def)


section \<open>The claims\<close>

text \<open>
  C1. When the reply of the language model parses as a JSON object that has the five
  required keys, the handler returns a dict whose \<^verbatim>\<open>customer_id\<close> is the request's
  \<^verbatim>\<open>customer_id\<close> stripped of surrounding whitespace, whose
  \<^verbatim>\<open>predicted_future_spend_30d\<close> is the model output rounded to two decimals and whose
  \<^verbatim>\<open>purchase_probability_30d\<close> is the heuristic value, whatever object \<open>kv\<close> the reply
  held. The first four hypotheses say that the handler reached the reply: the model
  returned \<open>future_spend\<close>, the heuristic and the rounding succeeded, and the client
  returned the text \<open>llm_output\<close>.
\<close>

theorem reconcile_overwrites_authoritative_fields:
  assumes "run_model env (features data) = (t1, Inr future_spend)"
    and "purchase_probability_30d (features data) = Inr probability"
    and "py_round2 future_spend = Inr spend"
    and "call_llm env (build_messages env (llm_input (strip (customer_id data)) spend probability))
           default_model_name = (t2, Inr llm_output)"
    and "json_loads env llm_output = Some (JObj kv)"
    and "set required_keys \<subseteq> fst ` set kv"
  shows "\<exists>out. predict_customer_value env data = (t1 @ t2, Inr out)
       \<and> map_of out ''customer_id'' = Some (JStr (strip (customer_id data)))
       \<and> map_of out ''predicted_future_spend_30d'' = Some (JNum spend)
       \<and> map_of out ''purchase_probability_30d'' = Some (JNum probability)"
  using assms(5,6) by (simp add: handler_after_reply [OF assms(1-4)] update_conv')

theorem reconcile_overwrites_authoritative_fields_witness:
  "\<exists>out. predict_customer_value (demo_env demo_text_full) demo_request
       = ([ModelPredict [Fin 30, Fin 5, Fin 100, Fin 20]] @ [LLMCall (demo_chat_request demo_text_full)],
          Inr out)
     \<and> map_of out ''customer_id'' = Some (JStr ''C-17'')
     \<and> map_of out ''predicted_future_spend_30d'' = Some (JNum (Fin 250))
     \<and> map_of out ''purchase_probability_30d''
         = Some (JNum (Fin (3602879701896397 / 9007199254740992)))"
proof -
  have h5: "json_loads (demo_env demo_text_full) demo_text_full = Some (JObj demo_object)"
    by (simp add: demo_json_loads demo_loads_full)
  have h6: "set required_keys \<subseteq> fst ` set demo_object"
    by (simp add: required_keys_def demo_object_def)
  from reconcile_overwrites_authoritative_fields
    [OF demo_run_model demo_probability round_demo demo_call_llm h5 h6]
  show ?thesis by (simp only: demo_request_id)
qed

text \<open>
  C2. For a feature list \<open>f\<close> of length at least 6, the one call made by \<^verbatim>\<open>run_model\<close> hands
  the model the vector \<open>[f ! 5, f ! 2, f ! 0, f ! 1]\<close>, that is, \<open>f\<close> read at the fixed
  indices 5, 2, 0, 1; and any list \<open>g\<close> of length at least 6 that agrees with \<open>f\<close> at the
  indices 0, 1, 2 and 5 gives the same call and the same result, so the elements at the
  indices 3 and 4 and beyond 5 have no effect.
\<close>

theorem run_model_feature_mapping:
  assumes "6 \<le> length f"
  shows "fst (run_model env f) = [ModelPredict [f ! 5, f ! 2, f ! 0, f ! 1]]
       \<and> [f ! 5, f ! 2, f ! 0, f ! 1] = map (\<lambda>i. f ! i) [5, 2, 0, 1]
       \<and> (\<forall>g. 6 \<le> length g \<and> g ! 0 = f ! 0 \<and> g ! 1 = f ! 1 \<and> g ! 2 = f ! 2 \<and> g ! 5 = f ! 5
              \<longrightarrow> run_model env g = run_model env f)"
  using assms by (simp add: run_model_long)

theorem run_model_feature_mapping_witness:
  "fst (run_model (demo_env demo_text_full) demo_features)
     = [ModelPredict [Fin 30, Fin 5, Fin 100, Fin 20]]
   \<and> run_model (demo_env demo_text_full)
        [Fin 100, Fin 20, Fin 5, Fin 0, Fin 77, Fin 30, Fin 9]
     = run_model (demo_env demo_text_full) demo_features"
proof -
  have len: "6 \<le> length demo_features" by (simp add: demo_features_def)
  note th = run_model_feature_mapping [OF len, of "demo_env demo_text_full"]
  have v: "[demo_features ! 5, demo_features ! 2, demo_features ! 0, demo_features ! 1]
      = [Fin 30, Fin 5, Fin 100, Fin 20]"
    by (simp add: demo_features_def)
  have a: "fst (run_model (demo_env demo_text_full) demo_features)
      = [ModelPredict [Fin 30, Fin 5, Fin 100, Fin 20]]"
    using th [THEN conjunct1] by (simp only: v)
  have g: "6 \<le> length [Fin 100, Fin 20, Fin 5, Fin 0, Fin 77, Fin 30, Fin 9 :: pyfloat]
      \<and> [Fin 100, Fin 20, Fin 5, Fin 0, Fin 77, Fin 30, Fin 9] ! 0 = demo_features ! 0
      \<and> [Fin 100, Fin 20, Fin 5, Fin 0, Fin 77, Fin 30, Fin 9] ! 1 = demo_features ! 1
      \<and> [Fin 100, Fin 20, Fin 5, Fin 0, Fin 77, Fin 30, Fin 9] ! 2 = demo_features ! 2
      \<and> [Fin 100, Fin 20, Fin 5, Fin 0, Fin 77, Fin 30, Fin 9] ! 5 = demo_features ! 5"
    by (simp add: demo_features_def)
  have b: "run_model (demo_env demo_text_full)
        [Fin 100, Fin 20, Fin 5, Fin 0, Fin 77, Fin 30, Fin 9]
      = run_model (demo_env demo_text_full) demo_features"
    by (rule th [THEN conjunct2, THEN conjunct2, rule_format, OF g])
  show ?thesis using a b by (rule conjI)
qed

text \<open>
  C3. A request that passes the schema and has fewer than 6 features is answered with
  the \<^verbatim>\<open>HTTPException\<close> of status 400 whose detail is the text naming the six expected
  features, and the list of outside calls is empty: neither the model nor the language
  model is invoked.
\<close>

theorem short_features_rejected:
  assumes "schema_ok data" and "length (features data) < 6"
  shows "endpoint env data = ([], Inl (HTTPException 400 (JStr expected_features)))
       \<and> status_code (HTTPException 400 (JStr expected_features)) = 400"
  using assms by (simp add: endpoint_def handler_short)

theorem short_features_rejected_witness:
  "endpoint (demo_env demo_text_full) short_request
     = ([], Inl (HTTPException 400 (JStr expected_features)))"
proof -
  have ok: "schema_ok short_request"
    by (simp add: schema_ok_def short_request_def)
  have len: "length (features short_request) < 6"
    by (simp add: short_request_def)
  from short_features_rejected [OF ok len] show ?thesis by simp
qed

text \<open>
  C4. For a feature list of length at least 6 whose \<^verbatim>\<open>num_transactions\<close> (index 2) is a
  finite float \<open>n \<ge> 0\<close> and whose \<^verbatim>\<open>recency_days\<close> (index 5) is a finite float \<open>d\<close>, the
  heuristic raises nothing and returns a finite float \<open>v\<close> with \<open>0.05 \<le> v \<le> 0.95\<close>, and
  that float is \<^verbatim>\<open>round(min(max(0.6 * max(0.0, 1.0 - d / 45) + 0.4 * min(n / 10, 1.0), 0.05), 0.95), 2)\<close>
  in float arithmetic.
\<close>

theorem heuristic_in_range:
  assumes "6 \<le> length fs" and "fs ! 2 = Fin n" and "0 \<le> n" and "fs ! 5 = Fin d"
  shows "\<exists>v. purchase_probability_30d fs = Inr (Fin v) \<and> 5 / 100 \<le> v \<and> v \<le> 95 / 100
     \<and> purchase_probability_30d fs =
         py_round2 (py_min (py_max
           (fadd (fmul (fl (6 / 10)) (py_max (Fin 0) (fsub (Fin 1) (fl (d / 45)))))
                 (fmul (fl (4 / 10)) (py_min (fl (n / 10)) (Fin 1))))
           (fl (5 / 100))) (fl (95 / 100)))"
proof -
  let ?rs = "py_max (Fin 0) (fsub (Fin 1) (fl (d / 45)))"
  let ?fs = "py_min (fl (n / 10)) (Fin 1)"
  let ?p = "fadd (fmul (fl (6 / 10)) ?rs) (fmul (fl (4 / 10)) ?fs)"
  have eq: "purchase_probability_30d fs =
      py_round2 (py_min (py_max ?p (fl (5 / 100))) (fl (95 / 100)))"
    by (simp add: pp_long [OF assms(1)] assms(2,4) truediv_def)
  obtain v where v: "?fs = Fin v" "0 \<le> v" using freq_score_range [OF assms(3)] by blast
  have t2: "nonneg (fmul (fl (4 / 10)) ?fs)"
  proof -
    have "nonneg (fmul (Fin (3602879701896397 / 9007199254740992)) (Fin v))"
      using fmul_nonneg [of "3602879701896397 / 9007199254740992" "Fin v"] v(2)
      by (simp add: nonneg_def)
    then show ?thesis unfolding fl_c04 v(1) .
  qed
  have t1: "nonneg (fmul (fl (6 / 10)) ?rs)"
  proof -
    have "nonneg (fmul (Fin (5404319552844595 / 9007199254740992)) ?rs)"
      using fmul_nonneg [of "5404319552844595 / 9007199254740992" ?rs, OF _ recency_score_nonneg]
      by simp
    then show ?thesis unfolding fl_c06 .
  qed
  have "nonneg ?p" by (rule fadd_nonneg [OF t1 t2])
  then have pn: "?p \<noteq> NaN" by (auto simp: nonneg_def)
  have lh: "(3602879701896397 / 72057594037927936 :: rat) \<le> 4278419646001971 / 4503599627370496"
    by simp
  from clamp_range [OF pn lh]
  obtain c where c0: "py_min (py_max ?p (Fin (3602879701896397 / 72057594037927936)))
        (Fin (4278419646001971 / 4503599627370496)) = Fin c"
    and c1: "3602879701896397 / 72057594037927936 \<le> c"
    and c2: "c \<le> 4278419646001971 / 4503599627370496"
    by blast
  have c: "py_min (py_max ?p (fl (5 / 100))) (fl (95 / 100)) = Fin c"
    unfolding fl_c005 fl_c095 by (rule c0)
  from py_round2_range [OF c1 c2]
  obtain w where w: "py_round2 (Fin c) = Inr (Fin w)"
    and w1: "3602879701896397 / 72057594037927936 \<le> w"
    and w2: "w \<le> 4278419646001971 / 4503599627370496"
    by blast
  have r: "purchase_probability_30d fs = Inr (Fin w)"
    unfolding eq c by (rule w)
  have lo: "5 / 100 \<le> w" using w1 by simp
  have hi: "w \<le> 95 / 100" using w2 by simp
  show ?thesis
  proof (intro exI conjI)
    show "purchase_probability_30d fs = Inr (Fin w)" by (rule r)
    show "5 / 100 \<le> w" by (rule lo)
    show "w \<le> 95 / 100" by (rule hi)
    show "purchase_probability_30d fs =
      py_round2 (py_min (py_max ?p (fl (5 / 100))) (fl (95 / 100)))" by (rule eq)
  qed
qed

theorem heuristic_in_range_witness:
  "\<exists>v. purchase_probability_30d [Fin 250, Fin 25, Fin 10, Fin 40, Fin 8, Fin 0] = Inr (Fin v)
     \<and> 5 / 100 \<le> v \<and> v \<le> 95 / 100"
proof -
  have len: "6 \<le> length [Fin 250, Fin 25, Fin 10, Fin 40, Fin 8, Fin 0 :: pyfloat]" by simp
  have n: "[Fin 250, Fin 25, Fin 10, Fin 40, Fin 8, Fin 0] ! 2 = Fin 10" by simp
  have d: "[Fin 250, Fin 25, Fin 10, Fin 40, Fin 8, Fin 0] ! 5 = Fin 0" by simp
  have n0: "(0::rat) \<le> 10" by simp
  from heuristic_in_range [OF len n n0 d] show ?thesis by blast
qed




text \<open>
  C6. When the reply does not parse as JSON, the handler raises the \<^verbatim>\<open>HTTPException\<close>
  of status 502 whose detail holds the reply text, unparsed, under \<^verbatim>\<open>raw\<close>, and returns
  no dict.
\<close>

theorem invalid_json_is_502:
  assumes "run_model env (features data) = (t1, Inr future_spend)"
    and "purchase_probability_30d (features data) = Inr probability"
    and "py_round2 future_spend = Inr spend"
    and "call_llm env (build_messages env (llm_input (strip (customer_id data)) spend probability))
           default_model_name = (t2, Inr llm_output)"
    and "json_loads env llm_output = None"
  shows "predict_customer_value env data =
       (t1 @ t2, Inl (HTTPException 502
          (JObj [(''error'', JStr ''Invalid JSON from LLM''), (''raw'', JStr llm_output)])))
     \<and> status_code (HTTPException 502
          (JObj [(''error'', JStr ''Invalid JSON from LLM''), (''raw'', JStr llm_output)])) = 502"
  using assms(5) by (simp add: handler_after_reply [OF assms(1-4)])

theorem invalid_json_is_502_witness:
  "predict_customer_value (demo_env ''Sure! Here is the report.'') demo_request =
     ([ModelPredict [Fin 30, Fin 5, Fin 100, Fin 20]]
        @ [LLMCall (demo_chat_request ''Sure! Here is the report.'')],
      Inl (HTTPException 502
        (JObj [(''error'', JStr ''Invalid JSON from LLM''),
               (''raw'', JStr ''Sure! Here is the report.'')])))"
proof -
  have h5: "json_loads (demo_env ''Sure! Here is the report.'') ''Sure! Here is the report.'' = None"
    by (simp only: demo_json_loads demo_loads_other)
  from invalid_json_is_502
    [OF demo_run_model demo_probability round_demo demo_call_llm h5]
  show ?thesis by blast
qed

text \<open>
  C7. When the handler returns a dict, every key other than \<^verbatim>\<open>customer_id\<close>,
  \<^verbatim>\<open>predicted_future_spend_30d\<close> and \<^verbatim>\<open>purchase_probability_30d\<close> has the value the
  parsed reply gave it; in particular \<^verbatim>\<open>customer_segment\<close>, \<^verbatim>\<open>insight\<close> and
  \<^verbatim>\<open>recommended_action\<close> are the reply's own.
\<close>

theorem narrative_keys_pass_through:
  assumes "run_model env (features data) = (t1, Inr future_spend)"
    and "purchase_probability_30d (features data) = Inr probability"
    and "py_round2 future_spend = Inr spend"
    and "call_llm env (build_messages env (llm_input (strip (customer_id data)) spend probability))
           default_model_name = (t2, Inr llm_output)"
    and "json_loads env llm_output = Some (JObj kv)"
    and "set required_keys \<subseteq> fst ` set kv"
  shows "\<exists>out. predict_customer_value env data = (t1 @ t2, Inr out)
       \<and> map_of out ''customer_segment'' = map_of kv ''customer_segment''
       \<and> map_of out ''insight'' = map_of kv ''insight''
       \<and> map_of out ''recommended_action'' = map_of kv ''recommended_action''
       \<and> (\<forall>k. k \<noteq> ''customer_id'' \<and> k \<noteq> ''predicted_future_spend_30d''
              \<and> k \<noteq> ''purchase_probability_30d'' \<longrightarrow> map_of out k = map_of kv k)"
  using assms(5,6) by (simp add: handler_after_reply [OF assms(1-4)] update_conv')

theorem narrative_keys_pass_through_witness:
  "\<exists>out. predict_customer_value (demo_env demo_text_full) demo_request
       = ([ModelPredict [Fin 30, Fin 5, Fin 100, Fin 20]] @ [LLMCall (demo_chat_request demo_text_full)],
          Inr out)
     \<and> map_of out ''customer_segment'' = Some (JStr ''High Value'')
     \<and> map_of out ''insight'' = Some (JStr ''Recent and frequent buyer.'')
     \<and> map_of out ''recommended_action'' = Some (JStr ''Offer a loyalty reward.'')"
proof -
  have h5: "json_loads (demo_env demo_text_full) demo_text_full = Some (JObj demo_object)"
    by (simp add: demo_json_loads demo_loads_full)
  have h6: "set required_keys \<subseteq> fst ` set demo_object"
    by (simp add: required_keys_def demo_object_def)
  have v: "map_of demo_object ''customer_segment'' = Some (JStr ''High Value'')"
    "map_of demo_object ''insight'' = Some (JStr ''Recent and frequent buyer.'')"
    "map_of demo_object ''recommended_action'' = Some (JStr ''Offer a loyalty reward.'')"
    by (simp_all add: demo_object_def)
  from narrative_keys_pass_through
    [OF demo_run_model demo_probability round_demo demo_call_llm h5 h6]
  show ?thesis unfolding v by blast
qed

text \<open>
  C8. On the features \<^verbatim>\<open>[100.0, 20.0, 5, 50, 10, 30]\<close> the vector handed to the model is
  \<^verbatim>\<open>[30, 5, 100.0, 20.0]\<close>, and the heuristic returns the float \<^verbatim>\<open>0.4\<close>, that is, the
  float nearest to \<open>4 / 10\<close>, whose exact value is \<open>3602879701896397 / 2 ^ 53\<close>.
\<close>

theorem example_vector_and_probability:
  "fst (run_model env [Fin 100, Fin 20, Fin 5, Fin 50, Fin 10, Fin 30])
     = [ModelPredict [Fin 30, Fin 5, Fin 100, Fin 20]]
   \<and> purchase_probability_30d [Fin 100, Fin 20, Fin 5, Fin 50, Fin 10, Fin 30]
     = Inr (Fin (3602879701896397 / 2 ^ 53))
   \<and> fl (4 / 10) = Fin (3602879701896397 / 2 ^ 53)"
proof -
  have p: "(2::rat) ^ 53 = 9007199254740992" by simp
  have a: "fst (run_model env [Fin 100, Fin 20, Fin 5, Fin 50, Fin 10, Fin 30])
      = [ModelPredict [Fin 30, Fin 5, Fin 100, Fin 20]]"
    by (simp add: run_model_def Let_def)
  have b: "purchase_probability_30d [Fin 100, Fin 20, Fin 5, Fin 50, Fin 10, Fin 30]
      = Inr (Fin (3602879701896397 / 2 ^ 53))"
    unfolding p using pp_demo by (simp only: demo_features_def)
  have c: "fl (4 / 10) = Fin (3602879701896397 / 2 ^ 53)"
    unfolding p by (rule fl_c04)
  show ?thesis using a b c by blast
qed

theorem example_vector_and_probability_witness:
  "fst (run_model (demo_env demo_text_full) [Fin 100, Fin 20, Fin 5, Fin 50, Fin 10, Fin 30])
     = [ModelPredict [Fin 30, Fin 5, Fin 100, Fin 20]]
   \<and> purchase_probability_30d [Fin 100, Fin 20, Fin 5, Fin 50, Fin 10, Fin 30]
     = Inr (Fin (3602879701896397 / 2 ^ 53))"
  using example_vector_and_probability [of "demo_env demo_text_full"] by blast

text \<open>
  C9, as the code has it. A body that violates the request schema (an empty
  \<^verbatim>\<open>customer_id\<close> or an empty \<^verbatim>\<open>features\<close> list) never reaches the handler: the
  framework answers it with its request-validation error, whose status is 422 and not
  400, and neither the model nor the language model is invoked. Status 400 with the
  expected-schema message belongs to the request that passes the schema and has fewer
  than 6 features.
\<close>

theorem schema_violation_is_validation_error:
  assumes "customer_id data = [] \<or> features data = []"
  shows "endpoint env data = ([], Inl RequestValidationError)
       \<and> status_code RequestValidationError = 422"
  using assms by (auto simp: endpoint_def schema_ok_def)

theorem schema_violation_is_validation_error_witness:
  "endpoint (demo_env demo_text_full) \<lparr>customer_id = ''C-17'', features = []\<rparr>
     = ([], Inl RequestValidationError)"
proof -
  have h: "customer_id \<lparr>customer_id = ''C-17'', features = []\<rparr> = []
         \<or> features \<lparr>customer_id = ''C-17'', features = []\<rparr> = []"
    by simp
  from schema_violation_is_validation_error [OF h] show ?thesis by blast
qed

text \<open>
  The claim as stated fails at the request with an empty \<^verbatim>\<open>customer_id\<close> and six
  features: the endpoint answers with the validation error, of status 422; and the
  handler itself, were it called on this request, has no check of \<^verbatim>\<open>customer_id\<close> and
  raises nothing.
\<close>

theorem schema_violation_not_400:
  "schema_ok anonymous_request = False
   \<and> endpoint (demo_env demo_text_full) anonymous_request = ([], Inl RequestValidationError)
   \<and> status_code RequestValidationError \<noteq> 400
   \<and> isl (snd (predict_customer_value (demo_env demo_text_full) anonymous_request)) = False"
proof -
  have f: "features anonymous_request = demo_features"
    and c: "strip (customer_id anonymous_request) = []"
    by (simp_all add: anonymous_request_def strip_def)
  have h1: "run_model (demo_env demo_text_full) (features anonymous_request)
      = ([ModelPredict [Fin 30, Fin 5, Fin 100, Fin 20]], Inr (Fin 250))"
    by (simp only: f run_model_demo)
  have h2: "purchase_probability_30d (features anonymous_request)
      = Inr (Fin (3602879701896397 / 9007199254740992))"
    by (simp only: f pp_demo)
  have h4: "call_llm (demo_env demo_text_full) (build_messages (demo_env demo_text_full)
      (llm_input (strip (customer_id anonymous_request)) (Fin 250)
         (Fin (3602879701896397 / 9007199254740992))))
      default_model_name = (fst (call_llm (demo_env demo_text_full)
         (build_messages (demo_env demo_text_full)
            (llm_input [] (Fin 250) (Fin (3602879701896397 / 9007199254740992))))
         default_model_name), Inr demo_text_full)"
    by (simp add: c call_llm_def Let_def demo_env_def)
  have h5: "json_loads (demo_env demo_text_full) demo_text_full = Some (JObj demo_object)"
    by (simp add: demo_json_loads demo_loads_full)
  have h6: "set required_keys \<subseteq> fst ` set demo_object"
    by (simp add: required_keys_def demo_object_def)
  have "isl (snd (predict_customer_value (demo_env demo_text_full) anonymous_request)) = False"
    using h5 h6 by (simp add: handler_after_reply [OF h1 h2 round_demo h4])
  then show ?thesis
    by (simp add: endpoint_def schema_ok_def anonymous_request_def)
qed

text \<open>
  C10. The heuristic reads \<^verbatim>\<open>features[2]\<close> and \<^verbatim>\<open>features[5]\<close> with no length check of
  its own: on a list shorter than 6 it raises \<^verbatim>\<open>IndexError\<close>. On a list of length at
  least 6 both reads are in range and it does not raise \<^verbatim>\<open>IndexError\<close>. At the endpoint
  \<^verbatim>\<open>run_model\<close> runs first and returns a value only when the length is at least 6, so the
  handler never raises \<^verbatim>\<open>IndexError\<close>.
\<close>

theorem heuristic_index_safety:
  "(length fs < 6 \<longrightarrow> purchase_probability_30d fs = Inl IndexError)
   \<and> (6 \<le> length fs \<longrightarrow>
        getitem fs 2 = Inr (fs ! 2) \<and> getitem fs 5 = Inr (fs ! 5)
        \<and> purchase_probability_30d fs \<noteq> Inl IndexError)
   \<and> (\<forall>t v. run_model env fs = (t, Inr v) \<longrightarrow> 6 \<le> length fs)
   \<and> snd (predict_customer_value env data) \<noteq> Inl IndexError"
  using pp_short [of fs] pp_long_not_IndexError [of fs] run_model_Inr_length [of env fs]
    handler_not_IndexError [of env data]
  by (auto simp: getitem_def)

theorem heuristic_index_safety_witness:
  "purchase_probability_30d [Fin 100, Fin 20, Fin 5] = Inl IndexError
   \<and> purchase_probability_30d demo_features \<noteq> Inl IndexError
   \<and> snd (predict_customer_value (demo_env demo_text_full) demo_request) \<noteq> Inl IndexError"
proof -
  note short = heuristic_index_safety
    [of "[Fin 100, Fin 20, Fin 5]" "demo_env demo_text_full" demo_request]
  note long = heuristic_index_safety
    [of demo_features "demo_env demo_text_full" demo_request]
  have s: "length [Fin 100, Fin 20, Fin 5 :: pyfloat] < 6" by simp
  have l: "6 \<le> length demo_features" by (simp add: demo_features_def)
  have a: "purchase_probability_30d [Fin 100, Fin 20, Fin 5] = Inl IndexError"
    using short s by blast
  have b: "purchase_probability_30d demo_features \<noteq> Inl IndexError"
    using long l by blast
  have c: "snd (predict_customer_value (demo_env demo_text_full) demo_request) \<noteq> Inl IndexError"
    using long by blast
  show ?thesis using a b c by blast
qed

end
